theory Spec2Isabelle
  imports Complex_Main "HOL-Library.Sublist"
begin

section \<open>Persona Wizard front end: task polling, simulated progress, result rendering\<close>

text \<open>
  The development embeds three pieces of the TypeScript front end:
  \<^item> \<^verbatim>\<open>components/BundleInference.tsx\<close>: the state \<^verbatim>\<open>inferenceProgress\<close> and the
    places that write it (\<^verbatim>\<open>runInference\<close>, the updater of its progress interval and
    the button \<^verbatim>\<open>Generate New Video\<close>);
  \<^item> \<^verbatim>\<open>components/PreviewGenerator.tsx\<close>: \<^verbatim>\<open>generatePreview\<close>, \<^verbatim>\<open>pollTaskStatus\<close>,
    \<^verbatim>\<open>cancelGeneration\<close> and the conditional rendering of the video-stage panel;
  \<^item> \<^verbatim>\<open>app/wizard/image/page.tsx\<close>: the two size lines of the results panel.

  Conventions. A JavaScript string is a \<^typ>\<open>string\<close>; a \<^verbatim>\<open>number\<close> is a \<^typ>\<open>real\<close>
  where the code computes with fractions and a \<^typ>\<open>nat\<close> for pixel counts. An optional
  field (\<^verbatim>\<open>f?: T\<close>) is a \<^typ>\<open>'a option\<close>. Every event handler is one atomic step on a
  record of the component's state; the outcome of the request it awaits is a parameter
  of the step, and every \<^verbatim>\<open>throw\<close> or rejected promise is a value of that parameter's
  type. Timers registered with \<^verbatim>\<open>setInterval\<close> and requests issued with \<^verbatim>\<open>fetch\<close> are
  recorded in the state. Record fields carry a prefix where two interfaces of the source
  use the same field name.
\<close>

subsection \<open>Strings of the JavaScript library\<close>

text \<open>\<^verbatim>\<open>s.startsWith(p)\<close>.\<close>

fun js_startsWith :: "string \<Rightarrow> string \<Rightarrow> bool" where
  "js_startsWith s [] = True"
| "js_startsWith [] (p # ps) = False"
| "js_startsWith (c # cs) (p # ps) = (c = p \<and> js_startsWith cs ps)"

text \<open>\<^verbatim>\<open>s.includes(p)\<close>: \<^verbatim>\<open>p\<close> occurs in \<^verbatim>\<open>s\<close> as a contiguous substring.\<close>

fun js_includes :: "string \<Rightarrow> string \<Rightarrow> bool" where
  "js_includes [] p = (p = [])"
| "js_includes (c # cs) p = (js_startsWith (c # cs) p \<or> js_includes cs p)"

text \<open>
  \<^verbatim>\<open>s.replace(p, r)\<close> with a string pattern: only the first (leftmost) occurrence of
  \<^verbatim>\<open>p\<close> is replaced. (The replacement is taken literally; the source only passes the
  empty string.)
\<close>

fun js_replace :: "string \<Rightarrow> string \<Rightarrow> string \<Rightarrow> string" where
  "js_replace [] p r = (if p = [] then r else [])"
| "js_replace (c # cs) p r =
     (if js_startsWith (c # cs) p then r @ drop (length p) (c # cs)
      else c # js_replace cs p r)"

text \<open>
  \<^verbatim>\<open>s.trim()\<close>. Characters are the code units below 256; the white space and line
  terminators of ECMAScript in that range are TAB, LF, VT, FF, CR, SPACE and NBSP.
\<close>

definition js_whitespace :: "char \<Rightarrow> bool" where
  "js_whitespace c = (of_char c \<in> {9, 10, 11, 12, 13, 32, 160 :: nat})"

definition js_trim :: "string \<Rightarrow> string" where
  "js_trim s = rev (dropWhile js_whitespace (rev (dropWhile js_whitespace s)))"

text \<open>Truthiness of an optional string: \<^verbatim>\<open>undefined\<close> and \<^verbatim>\<open>''\<close> are falsy.\<close>

fun js_truthy :: "string option \<Rightarrow> bool" where
  "js_truthy None = False"
| "js_truthy (Some s) = (s \<noteq> [])"

text \<open>\<^verbatim>\<open>a || d\<close> for an optional string \<^verbatim>\<open>a\<close> and a string literal \<^verbatim>\<open>d\<close>.\<close>

fun js_or :: "string option \<Rightarrow> string \<Rightarrow> string" where
  "js_or None d = d"
| "js_or (Some s) d = (if s = [] then d else s)"

subsection \<open>Outcome of an awaited request\<close>

text \<open>
  \<^verbatim>\<open>await fetch(...)\<close> either rejects (\<open>Inl\<close> of the error's message) or resolves to a
  response, of which the code reads \<^verbatim>\<open>ok\<close> and \<^verbatim>\<open>await response.json()\<close>; the latter
  again either rejects or yields the parsed body.
\<close>

datatype 'a response = Response (ok: bool) (json: "string + 'a")

type_synonym 'a fetched = "string + 'a response"

subsection \<open>\<^verbatim>\<open>BundleInference.tsx\<close>: the simulated inference progress\<close>

datatype inference_status = Idle | Running | Completed | Error

record InferenceResult =
  res_status :: string
  res_persona_id :: string
  res_prompt :: string
  res_video_url :: string
  res_duration :: real
  res_fps :: real
  res_size_px :: real
  res_frame_count :: real
  res_stdout :: string
  res_stderr :: string
















subsection \<open>\<^verbatim>\<open>PreviewGenerator.tsx\<close>: task creation, polling and cancellation\<close>

record PreviewTask =
  task_id :: string
  status :: string
  progress :: real
  current_step :: "string option"
  message :: "string option"
  video_path :: "string option"
  audio_path :: "string option"
  error :: "string option"

text \<open>A request as passed to \<^verbatim>\<open>fetch\<close>; without an options argument the method is GET.\<close>

datatype http_method = GET | POST | DELETE

datatype json_value = JString string | JBoolean bool

record request =
  req_method :: http_method
  req_url :: string
  req_headers :: "(string \<times> string) list"
  req_body :: "(string \<times> json_value) list option"

text \<open>A timer registered with \<^verbatim>\<open>setInterval\<close>: the task its callback polls, and its delay in ms.\<close>

record polling =
  poll_taskId :: string
  poll_delay :: nat

text \<open>
  The component: whether the optional prop \<^verbatim>\<open>onPreviewGenerated\<close> was supplied; its five
  state variables (\<open>error_state\<close> is the state variable \<^verbatim>\<open>error\<close>); the intervals that are
  registered, by identifier, with the next identifier \<^verbatim>\<open>setInterval\<close> will return; the
  requests issued so far; and the arguments \<^verbatim>\<open>onPreviewGenerated\<close> was called with.
\<close>

record PreviewGenerator =
  onPreviewGenerated :: bool
  prompt :: string
  isGenerating :: bool
  currentTask :: "PreviewTask option"
  error_state :: "string option"
  previewVideo :: "string option"
  intervals :: "nat \<rightharpoonup> polling"
  nextInterval :: nat
  requests :: "request list"
  callbackCalls :: "string list"

definition clearInterval :: "nat \<Rightarrow> PreviewGenerator \<Rightarrow> PreviewGenerator" where
  "clearInterval i s = s\<lparr>intervals := (intervals s)(i := None)\<rparr>"

text \<open>\<^verbatim>\<open>pollTaskStatus\<close>: registers the interval; its callback is \<open>pollCallback\<close> below.\<close>

definition pollTaskStatus :: "string \<Rightarrow> PreviewGenerator \<Rightarrow> PreviewGenerator" where
  "pollTaskStatus taskId s =
     s\<lparr>intervals := (intervals s)(nextInterval s \<mapsto> \<lparr>poll_taskId = taskId, poll_delay = 2000\<rparr>),
       nextInterval := Suc (nextInterval s)\<rparr>"

text \<open>The \<^verbatim>\<open>catch\<close> block of the interval's callback.\<close>

definition pollCaught :: "nat \<Rightarrow> string \<Rightarrow> PreviewGenerator \<Rightarrow> PreviewGenerator" where
  "pollCaught pollInterval msg s =
     (clearInterval pollInterval (s\<lparr>isGenerating := False\<rparr>))\<lparr>error_state := Some msg\<rparr>"

text \<open>
  One run of the callback of the interval \<open>pollInterval\<close> that \<^verbatim>\<open>pollTaskStatus(taskId)\<close>
  registered, given how its status request settles. The prop \<^verbatim>\<open>onPreviewGenerated\<close>, when
  supplied, is taken to return normally.
\<close>

definition pollCallback ::
  "nat \<Rightarrow> string \<Rightarrow> PreviewTask fetched \<Rightarrow> PreviewGenerator \<Rightarrow> PreviewGenerator" where
  "pollCallback pollInterval taskId outcome s =
     (let s1 = s\<lparr>requests := requests s @
                 [\<lparr>req_method = GET, req_url = ''/api/preview/status-full/'' @ taskId,
                   req_headers = [], req_body = None\<rparr>]\<rparr>
      in case outcome of
           Inl msg \<Rightarrow> pollCaught pollInterval msg s1
         | Inr resp \<Rightarrow>
             if \<not> ok resp then pollCaught pollInterval ''Failed to get task status'' s1
             else
               (case json resp of
                  Inl msg \<Rightarrow> pollCaught pollInterval msg s1
                | Inr task \<Rightarrow>
                    (let s2 = s1\<lparr>currentTask := Some task\<rparr>
                     in if status task = ''completed'' then
                          (let s3 = clearInterval pollInterval (s2\<lparr>isGenerating := False\<rparr>)
                           in case video_path task of
                                None \<Rightarrow> s3
                              | Some path \<Rightarrow>
                                  if path = [] then s3
                                  else s3\<lparr>previewVideo := Some path,
                                          callbackCalls :=
                                            (if onPreviewGenerated s3
                                             then callbackCalls s3 @ [path]
                                             else callbackCalls s3)\<rparr>)
                        else if status task = ''failed'' then
                          (clearInterval pollInterval (s2\<lparr>isGenerating := False\<rparr>))
                            \<lparr>error_state := Some (js_or (error task) ''Preview generation failed'')\<rparr>
                        else s2)))"

text \<open>The timer fires: the callback of a registered interval runs; a cleared one is silent.\<close>

definition intervalFires :: "nat \<Rightarrow> PreviewTask fetched \<Rightarrow> PreviewGenerator \<Rightarrow> PreviewGenerator" where
  "intervalFires i outcome s =
     (case intervals s i of
        None \<Rightarrow> s
      | Some p \<Rightarrow> pollCallback i (poll_taskId p) outcome s)"

text \<open>Successive firings of one interval, one outcome per firing.\<close>

fun intervalRuns :: "nat \<Rightarrow> PreviewTask fetched list \<Rightarrow> PreviewGenerator \<Rightarrow> PreviewGenerator" where
  "intervalRuns i [] s = s"
| "intervalRuns i (outcome # outcomes) s = intervalRuns i outcomes (intervalFires i outcome s)"

text \<open>
  \<^verbatim>\<open>generatePreview\<close>. The document of an \<^verbatim>\<open>ok\<close> response is read through its fields
  \<^verbatim>\<open>task_id\<close>, \<^verbatim>\<open>status\<close>, \<^verbatim>\<open>progress\<close> and \<^verbatim>\<open>message\<close>.
\<close>

definition generateCaught :: "string \<Rightarrow> PreviewGenerator \<Rightarrow> PreviewGenerator" where
  "generateCaught msg s = s\<lparr>error_state := Some msg, isGenerating := False\<rparr>"

definition generatePreview :: "PreviewTask fetched \<Rightarrow> PreviewGenerator \<Rightarrow> PreviewGenerator" where
  "generatePreview outcome s =
     (if js_trim (prompt s) = [] then s\<lparr>error_state := Some ''Please enter a prompt''\<rparr>
      else
        (let s1 = s\<lparr>isGenerating := True, error_state := None, currentTask := None,
                    previewVideo := None,
                    requests := requests s @
                      [\<lparr>req_method = POST, req_url = ''/api/preview/generate-full'',
                        req_headers = [(''Content-Type'', ''application/json'')],
                        req_body = Some [(''prompt'', JString (js_trim (prompt s))),
                                         (''use_sample'', JBoolean True)]\<rparr>]\<rparr>
         in case outcome of
              Inl msg \<Rightarrow> generateCaught msg s1
            | Inr resp \<Rightarrow>
                if \<not> ok resp then generateCaught ''Failed to start preview generation'' s1
                else
                  (case json resp of
                     Inl msg \<Rightarrow> generateCaught msg s1
                   | Inr data \<Rightarrow>
                       pollTaskStatus (task_id data)
                         (s1\<lparr>currentTask :=
                               Some \<lparr>task_id = task_id data, status = status data,
                                     progress = progress data, current_step = None,
                                     message = message data, video_path = None,
                                     audio_path = None, error = None\<rparr>\<rparr>))))"

text \<open>
  \<^verbatim>\<open>cancelGeneration\<close>. Of the awaited request only whether \<^verbatim>\<open>fetch\<close> rejects matters: the
  response is not looked at.
\<close>

definition cancelGeneration :: "'a fetched \<Rightarrow> PreviewGenerator \<Rightarrow> PreviewGenerator" where
  "cancelGeneration outcome s =
     (case currentTask s of
        None \<Rightarrow> s
      | Some task \<Rightarrow>
          (let s1 = s\<lparr>requests := requests s @
                      [\<lparr>req_method = DELETE, req_url = ''/api/preview/tasks-full/'' @ task_id task,
                        req_headers = [], req_body = None\<rparr>]\<rparr>
           in case outcome of
                Inl msg \<Rightarrow> s1\<lparr>error_state := Some msg\<rparr>
              | Inr resp \<Rightarrow> s1\<lparr>isGenerating := False, currentTask := None\<rparr>))"

text \<open>
  The block \<^verbatim>\<open>Show detailed stage for SadTalker\<close> of the status section: \<open>None\<close> when it is
  not rendered, otherwise the text of its second line.
\<close>

definition sadTalkerPanel :: "PreviewGenerator \<Rightarrow> string option" where
  "sadTalkerPanel s =
     (case currentTask s of
        None \<Rightarrow> None
      | Some task \<Rightarrow>
          (case message task of
             None \<Rightarrow> None
           | Some m \<Rightarrow>
               if status task = ''generating_video'' \<and> js_includes m ''SadTalker''
               then Some (js_replace m ''SadTalker: '' [])
               else None))"

text \<open>
  For comparison, the wording of the specification: the message with the prefix removed.
\<close>

definition spec_without_prefix :: "string \<Rightarrow> string \<Rightarrow> string" where
  "spec_without_prefix p m = (if js_startsWith m p then drop (length p) m else m)"

subsection \<open>\<^verbatim>\<open>wizard/image/page.tsx\<close>: the size lines of the results panel\<close>









subsection \<open>Vocabulary of the properties\<close>

text \<open>
  What a run of the polling callback observed: the status request returned a task with
  the given status; or the run threw (the request was rejected, the response was not
  \<^verbatim>\<open>ok\<close>, or its body could not be parsed).
\<close>

definition returnsStatus :: "PreviewTask fetched \<Rightarrow> string \<Rightarrow> bool" where
  "returnsStatus outcome st =
     (case outcome of
        Inl msg \<Rightarrow> False
      | Inr resp \<Rightarrow>
          ok resp \<and> (case json resp of Inl msg \<Rightarrow> False | Inr task \<Rightarrow> status task = st))"

definition pollThrows :: "PreviewTask fetched \<Rightarrow> bool" where
  "pollThrows outcome =
     (case outcome of
        Inl msg \<Rightarrow> True
      | Inr resp \<Rightarrow> \<not> ok resp \<or> (case json resp of Inl msg \<Rightarrow> True | Inr task \<Rightarrow> False))"

definition pollStops :: "PreviewTask fetched \<Rightarrow> bool" where
  "pollStops outcome =
     (pollThrows outcome \<or> returnsStatus outcome ''completed'' \<or> returnsStatus outcome ''failed'')"

text \<open>The request of one poll of a task.\<close>

definition statusRequest :: "string \<Rightarrow> request" where
  "statusRequest taskId =
     \<lparr>req_method = GET, req_url = ''/api/preview/status-full/'' @ taskId,
      req_headers = [], req_body = None\<rparr>"



subsection \<open>Sample inputs\<close>




text \<open>
  A mounted \<^verbatim>\<open>PreviewGenerator\<close> with \<^verbatim>\<open>onPreviewGenerated\<close> supplied and a prompt typed.
\<close>

definition sampleGenerator :: PreviewGenerator where
  "sampleGenerator =
     \<lparr>onPreviewGenerated = True, prompt = ''Hello world'', isGenerating = False,
      currentTask = None, error_state = None, previewVideo = None,
      intervals = Map.empty, nextInterval = 0, requests = [], callbackCalls = []\<rparr>"

definition sampleTask :: "string \<Rightarrow> PreviewTask" where
  "sampleTask st =
     \<lparr>task_id = ''t1'', status = st, progress = 0, current_step = None,
      message = None, video_path = None, audio_path = None, error = None\<rparr>"

text \<open>The component after \<^verbatim>\<open>generatePreview\<close> succeeded for task \<^verbatim>\<open>t1\<close>: interval 0 polls it.\<close>

definition samplePolling :: PreviewGenerator where
  "samplePolling =
     generatePreview (Inr (Response True (Inr (sampleTask ''started'')))) sampleGenerator"

text \<open>A returned snapshot of a completed task, with the given video path.\<close>

definition completedTask :: "string option \<Rightarrow> PreviewTask" where
  "completedTask v =
     \<lparr>task_id = ''t1'', status = ''completed'', progress = 100, current_step = None,
      message = None, video_path = v, audio_path = Some ''/out/a.wav'', error = None\<rparr>"

text \<open>A returned snapshot of a failed task, with the given error field.\<close>

definition failedTask :: "string option \<Rightarrow> PreviewTask" where
  "failedTask e =
     \<lparr>task_id = ''t1'', status = ''failed'', progress = 60, current_step = None,
      message = None, video_path = None, audio_path = None, error = e\<rparr>"

text \<open>The component showing a task in the video stage with the given message.\<close>

definition videoStage :: "string \<Rightarrow> PreviewGenerator" where
  "videoStage m =
     sampleGenerator\<lparr>currentTask :=
       Some ((sampleTask ''generating_video'')\<lparr>message := Some m\<rparr>)\<rparr>"


section \<open>Properties\<close>

subsection \<open>The simulated inference progress\<close>




lemma js_trim_hello: "js_trim ''Hello world'' = ''Hello world''"
  by (simp add: js_trim_def js_whitespace_def)







subsection \<open>The polling interval\<close>

text \<open>What one run of the callback does to the registered intervals and to the request log.\<close>

lemma pollCallback_intervals:
  "intervals (pollCallback i taskId outcome s) =
     (if pollStops outcome then (intervals s)(i := None) else intervals s)"
  by (cases outcome; cases "projr outcome")
     (auto simp add: pollCallback_def pollCaught_def clearInterval_def pollStops_def
        pollThrows_def returnsStatus_def Let_def split: sum.splits option.splits)

lemma pollCallback_requests:
  "requests (pollCallback i taskId outcome s) = requests s @ [statusRequest taskId]"
  by (auto simp add: pollCallback_def pollCaught_def clearInterval_def statusRequest_def
        Let_def split: sum.splits option.splits)

lemma intervalFires_intervals:
  "intervals s i = Some p \<Longrightarrow>
     intervals (intervalFires i outcome s) =
       (if pollStops outcome then (intervals s)(i := None) else intervals s)"
  by (simp add: intervalFires_def pollCallback_intervals)

lemma intervalFires_requests:
  "intervals s i = Some p \<Longrightarrow>
     requests (intervalFires i outcome s) = requests s @ [statusRequest (poll_taskId p)]"
  by (simp add: intervalFires_def pollCallback_requests)

lemma intervalFires_cleared: "intervals s i = None \<Longrightarrow> intervalFires i outcome s = s"
  by (simp add: intervalFires_def)

lemma intervalRuns_cleared: "intervals s i = None \<Longrightarrow> intervalRuns i outcomes s = s"
  by (induction outcomes) (simp_all add: intervalFires_cleared)

text \<open>
  Over any number of firings: the interval is gone exactly if one of the runs stopped it,
  and no run touches another interval.
\<close>

lemma intervalRuns_intervals:
  "intervals s i = Some p \<Longrightarrow>
     intervals (intervalRuns i outcomes s) =
       (if list_ex pollStops outcomes then (intervals s)(i := None) else intervals s)"
proof (induction outcomes arbitrary: s)
  case Nil
  then show ?case by simp
next
  case (Cons outcome outcomes)
  show ?case
  proof (cases "pollStops outcome")
    case True
    then have "intervals (intervalFires i outcome s) i = None"
      using Cons.prems by (simp add: intervalFires_intervals)
    then have "intervalRuns i outcomes (intervalFires i outcome s) = intervalFires i outcome s"
      by (rule intervalRuns_cleared)
    then show ?thesis using True Cons.prems by (simp add: intervalFires_intervals)
  next
    case False
    then have same: "intervals (intervalFires i outcome s) = intervals s"
      using Cons.prems by (simp add: intervalFires_intervals)
    then have "intervals (intervalFires i outcome s) i = Some p" using Cons.prems by simp
    from Cons.IH[OF this] show ?thesis using False same by simp
  qed
qed

lemma cancelGeneration_intervals: "intervals (cancelGeneration c s) = intervals s"
  by (simp add: cancelGeneration_def Let_def split: option.splits sum.splits)

lemma generatePreview_registers:
  "js_trim (prompt s) \<noteq> [] \<Longrightarrow>
     intervals (generatePreview (Inr (Response True (Inr data))) s) =
       (intervals s)(nextInterval s \<mapsto> \<lparr>poll_taskId = task_id data, poll_delay = 2000\<rparr>)"
  by (simp add: generatePreview_def pollTaskStatus_def Let_def)

lemma cancelled_not_stops: "returnsStatus outcome ''cancelled'' \<Longrightarrow> \<not> pollStops outcome"
  by (auto simp add: pollStops_def pollThrows_def returnsStatus_def split: sum.splits)

text \<open>Facts about the sample component.\<close>

lemma samplePolling_intervals:
  "intervals samplePolling = [0 \<mapsto> \<lparr>poll_taskId = ''t1'', poll_delay = 2000\<rparr>]"
  by (simp add: samplePolling_def sampleGenerator_def sampleTask_def generatePreview_registers
        js_trim_hello)

lemma samplePolling_currentTask: "currentTask samplePolling = Some (sampleTask ''started'')"
  by (simp add: samplePolling_def sampleGenerator_def sampleTask_def generatePreview_def
        pollTaskStatus_def js_trim_hello Let_def)

lemma samplePolling_untouched:
  "onPreviewGenerated samplePolling" "previewVideo samplePolling = None"
  "callbackCalls samplePolling = []"
  by (simp_all add: samplePolling_def sampleGenerator_def generatePreview_def
        pollTaskStatus_def js_trim_hello Let_def)

text \<open>
  Claim C1, as stated, fails: the claim has polling stop exactly when a poll returns the
  status \<^verbatim>\<open>completed\<close> or \<^verbatim>\<open>failed\<close>. Here the status request of task \<^verbatim>\<open>t1\<close> is rejected
  (a network failure): no status is returned, and the \<^verbatim>\<open>catch\<close> block clears the
  interval all the same.
\<close>

theorem polling_stops_without_terminal_status:
  "intervals samplePolling 0 = Some \<lparr>poll_taskId = ''t1'', poll_delay = 2000\<rparr> \<and>
   intervals (intervalFires 0 (Inl ''Failed to fetch'') samplePolling) 0 = None \<and>
   \<not> returnsStatus (Inl ''Failed to fetch'') ''completed'' \<and>
   \<not> returnsStatus (Inl ''Failed to fetch'') ''failed''"
  by (simp add: samplePolling_intervals intervalFires_intervals pollStops_def pollThrows_def
        returnsStatus_def)

text \<open>
  Claim C1, amended. For every created task the client registers an interval with a
  delay of 2000 ms; each firing issues a GET for the status of that task; the firing
  clears the interval exactly when the poll returns the status \<^verbatim>\<open>completed\<close> or
  \<^verbatim>\<open>failed\<close> or when the poll throws (the request is rejected, the response is not
  \<^verbatim>\<open>ok\<close>, or its body does not parse); a poll returning any other status, \<^verbatim>\<open>cancelled\<close>
  included, leaves the interval registered as it was.
\<close>

theorem polling_interval_lifetime:
  "(js_trim (prompt s) \<noteq> [] \<longrightarrow>
      intervals (generatePreview (Inr (Response True (Inr data))) s) (nextInterval s) =
        Some \<lparr>poll_taskId = task_id data, poll_delay = 2000\<rparr>) \<and>
   (intervals s i = Some p \<longrightarrow>
      requests (intervalFires i outcome s) = requests s @ [statusRequest (poll_taskId p)] \<and>
      (intervals (intervalFires i outcome s) i = None \<longleftrightarrow>
         returnsStatus outcome ''completed'' \<or> returnsStatus outcome ''failed'' \<or>
         pollThrows outcome) \<and>
      (\<not> pollStops outcome \<longrightarrow> intervals (intervalFires i outcome s) i = Some p))"
  by (auto simp add: generatePreview_registers intervalFires_requests intervalFires_intervals
        pollStops_def)

theorem polling_interval_lifetime_witness:
  "js_trim (prompt sampleGenerator) \<noteq> [] \<and>
   intervals samplePolling 0 = Some \<lparr>poll_taskId = ''t1'', poll_delay = 2000\<rparr> \<and>
   requests (intervalFires 0 (Inr (Response True (Inr (sampleTask ''cancelled'')))) samplePolling)
     = requests samplePolling @ [statusRequest ''t1''] \<and>
   intervals (intervalFires 0 (Inr (Response True (Inr (sampleTask ''cancelled'')))) samplePolling) 0
     = Some \<lparr>poll_taskId = ''t1'', poll_delay = 2000\<rparr> \<and>
   intervals (intervalFires 0 (Inr (Response True (Inr (sampleTask ''failed'')))) samplePolling) 0
     = None"
proof -
  have t: "js_trim (prompt sampleGenerator) \<noteq> []"
    by (simp add: sampleGenerator_def js_trim_hello)
  have i: "intervals samplePolling 0 = Some \<lparr>poll_taskId = ''t1'', poll_delay = 2000\<rparr>"
    by (simp add: samplePolling_intervals)
  have c: "\<not> pollStops (Inr (Response True (Inr (sampleTask ''cancelled''))))"
    by (simp add: pollStops_def pollThrows_def returnsStatus_def sampleTask_def)
  have f: "returnsStatus (Inr (Response True (Inr (sampleTask ''failed'')))) ''failed''"
    by (simp add: returnsStatus_def sampleTask_def)
  show ?thesis
    using t i c f
      polling_interval_lifetime[of samplePolling _ 0 "\<lparr>poll_taskId = ''t1'', poll_delay = 2000\<rparr>"
        "Inr (Response True (Inr (sampleTask ''cancelled'')))"]
      polling_interval_lifetime[of samplePolling _ 0 "\<lparr>poll_taskId = ''t1'', poll_delay = 2000\<rparr>"
        "Inr (Response True (Inr (sampleTask ''failed'')))"]
    by simp
qed

text \<open>
  Claim C9. \<^verbatim>\<open>cancelGeneration\<close> never clears the polling interval: the registered
  intervals are the same after it, however its request settles. After a cancellation
  the interval (with its delay of 2000 ms) goes on firing, and over any sequence of
  polls it is cleared only if one of them returned \<^verbatim>\<open>completed\<close> or \<^verbatim>\<open>failed\<close> or threw;
  a poll that observes the status \<^verbatim>\<open>cancelled\<close> leaves it registered.
\<close>

theorem cancel_keeps_polling:
  "intervals (cancelGeneration c s) = intervals s \<and>
   (intervals s i = Some p \<longrightarrow>
      intervals (intervalRuns i outcomes (cancelGeneration c s)) i =
        (if list_ex pollStops outcomes then None else Some p) \<and>
      (returnsStatus outcome ''cancelled'' \<longrightarrow>
         intervals (intervalFires i outcome (cancelGeneration c s)) i = Some p))"
proof -
  have a: "intervals (cancelGeneration c s) = intervals s"
    by (rule cancelGeneration_intervals)
  have "intervals (intervalRuns i outcomes (cancelGeneration c s)) i =
          (if list_ex pollStops outcomes then None else Some p) \<and>
        (returnsStatus outcome ''cancelled'' \<longrightarrow>
           intervals (intervalFires i outcome (cancelGeneration c s)) i = Some p)"
    if p: "intervals s i = Some p"
  proof -
    have q: "intervals (cancelGeneration c s) i = Some p" using p by (simp add: a)
    have "intervals (intervalRuns i outcomes (cancelGeneration c s)) i =
            (if list_ex pollStops outcomes then None else Some p)"
      using p by (simp add: intervalRuns_intervals[OF q] a)
    moreover have "returnsStatus outcome ''cancelled'' \<longrightarrow>
         intervals (intervalFires i outcome (cancelGeneration c s)) i = Some p"
      using p by (simp add: intervalFires_intervals[OF q] a cancelled_not_stops)
    ultimately show ?thesis by simp
  qed
  then show ?thesis using a by blast
qed

theorem cancel_keeps_polling_witness:
  "intervals samplePolling 0 = Some \<lparr>poll_taskId = ''t1'', poll_delay = 2000\<rparr> \<and>
   currentTask samplePolling \<noteq> None \<and>
   intervals (cancelGeneration (Inr (Response True (Inr ()))) samplePolling) 0
     = Some \<lparr>poll_taskId = ''t1'', poll_delay = 2000\<rparr> \<and>
   intervals (intervalRuns 0
       [Inr (Response True (Inr (sampleTask ''cancelled''))),
        Inr (Response True (Inr (sampleTask ''cancelled'')))]
       (cancelGeneration (Inr (Response True (Inr ()))) samplePolling)) 0
     = Some \<lparr>poll_taskId = ''t1'', poll_delay = 2000\<rparr> \<and>
   intervals (intervalRuns 0
       [Inr (Response True (Inr (sampleTask ''cancelled''))), Inr (Response False (Inl []))]
       (cancelGeneration (Inr (Response True (Inr ()))) samplePolling)) 0
     = None"
proof -
  have i: "intervals samplePolling 0 = Some \<lparr>poll_taskId = ''t1'', poll_delay = 2000\<rparr>"
    by (simp add: samplePolling_intervals)
  have t: "currentTask samplePolling \<noteq> None"
    by (simp add: samplePolling_currentTask)
  have c: "\<not> pollStops (Inr (Response True (Inr (sampleTask ''cancelled''))))"
    by (simp add: pollStops_def pollThrows_def returnsStatus_def sampleTask_def)
  have n: "pollStops (Inr (Response False (Inl [])))"
    by (simp add: pollStops_def pollThrows_def)
  show ?thesis
    using i t c n
      cancel_keeps_polling[of "Inr (Response True (Inr ()))" samplePolling 0
        "\<lparr>poll_taskId = ''t1'', poll_delay = 2000\<rparr>"
        "[Inr (Response True (Inr (sampleTask ''cancelled''))),
          Inr (Response True (Inr (sampleTask ''cancelled'')))]"]
      cancel_keeps_polling[of "Inr (Response True (Inr ()))" samplePolling 0
        "\<lparr>poll_taskId = ''t1'', poll_delay = 2000\<rparr>"
        "[Inr (Response True (Inr (sampleTask ''cancelled''))), Inr (Response False (Inl []))]"]
    by simp
qed

subsection \<open>Polls that return a terminal status\<close>

lemma pollCallback_completed:
  "status task = ''completed'' \<Longrightarrow>
     pollCallback i taskId (Inr (Response True (Inr task))) s =
       (let s3 = s\<lparr>requests := requests s @ [statusRequest taskId], currentTask := Some task,
                   isGenerating := False, intervals := (intervals s)(i := None)\<rparr>
        in if js_truthy (video_path task)
           then s3\<lparr>previewVideo := video_path task,
                   callbackCalls := (if onPreviewGenerated s
                                     then callbackCalls s @ [the (video_path task)]
                                     else callbackCalls s)\<rparr>
           else s3)"
  by (cases "video_path task")
     (simp_all add: pollCallback_def clearInterval_def statusRequest_def Let_def)

lemma pollCallback_failed:
  "status task = ''failed'' \<Longrightarrow>
     pollCallback i taskId (Inr (Response True (Inr task))) s =
       s\<lparr>requests := requests s @ [statusRequest taskId], currentTask := Some task,
         isGenerating := False, intervals := (intervals s)(i := None),
         error_state := Some (js_or (error task) ''Preview generation failed'')\<rparr>"
  by (simp add: pollCallback_def clearInterval_def statusRequest_def Let_def)

text \<open>
  Claim C4, as stated, fails: the claim has every poll that returns \<^verbatim>\<open>completed\<close> record
  the video path as the preview video and pass it to \<^verbatim>\<open>onPreviewGenerated\<close>. Here the
  poll returns a completed task (progress 100, with an audio path) whose \<^verbatim>\<open>video_path\<close>
  is absent, to a component that was given the callback: the guard
  \<^verbatim>\<open>if (task.video_path)\<close> skips both, so no preview video is recorded and the callback is
  not called.
\<close>

theorem completed_without_video_records_nothing:
  "status (completedTask None) = ''completed'' \<and>
   onPreviewGenerated samplePolling \<and>
   previewVideo (intervalFires 0 (Inr (Response True (Inr (completedTask None)))) samplePolling)
     = None \<and>
   callbackCalls (intervalFires 0 (Inr (Response True (Inr (completedTask None)))) samplePolling)
     = []"
  by (simp add: intervalFires_def samplePolling_intervals pollCallback_completed
        completedTask_def samplePolling_untouched)

text \<open>
  Claim C4, amended. When a poll returns the status \<^verbatim>\<open>completed\<close>, the client stops
  polling, clears the generating flag and keeps the returned snapshot (with its audio
  path and its progress, as returned) as the current task. If the snapshot's video path
  is present and not empty, it is recorded as the preview video and, when the
  \<^verbatim>\<open>onPreviewGenerated\<close> callback was supplied, the callback is called with it; otherwise
  the preview video and the callback are left alone.
\<close>

theorem completed_poll_effect:
  "intervals s i = Some p \<and> status task = ''completed'' \<longrightarrow>
     (let s' = intervalFires i (Inr (Response True (Inr task))) s
      in intervals s' i = None \<and> isGenerating s' = False \<and> currentTask s' = Some task \<and>
         (\<forall>path. video_path task = Some path \<and> path \<noteq> [] \<longrightarrow>
            previewVideo s' = Some path \<and>
            callbackCalls s' =
              (if onPreviewGenerated s then callbackCalls s @ [path] else callbackCalls s)) \<and>
         (video_path task = None \<or> video_path task = Some [] \<longrightarrow>
            previewVideo s' = previewVideo s \<and> callbackCalls s' = callbackCalls s))"
proof (intro impI)
  assume h: "intervals s i = Some p \<and> status task = ''completed''"
  define s' where "s' = intervalFires i (Inr (Response True (Inr task))) s"
  have run: "s' = pollCallback i (poll_taskId p) (Inr (Response True (Inr task))) s"
    using h by (simp add: s'_def intervalFires_def)
  have compl: "status task = ''completed''" using h by simp
  have common: "intervals s' i = None \<and> isGenerating s' = False \<and> currentTask s' = Some task"
    unfolding run pollCallback_completed[OF compl] by (simp add: Let_def)
  have video: "previewVideo s' = Some path \<and>
      callbackCalls s' =
        (if onPreviewGenerated s then callbackCalls s @ [path] else callbackCalls s)"
    if "video_path task = Some path \<and> path \<noteq> []" for path
    unfolding run pollCallback_completed[OF compl] using that by (simp add: Let_def)
  have none: "previewVideo s' = previewVideo s \<and> callbackCalls s' = callbackCalls s"
    if "video_path task = None \<or> video_path task = Some []"
    unfolding run pollCallback_completed[OF compl] using that by (auto simp add: Let_def)
  show "let s' = intervalFires i (Inr (Response True (Inr task))) s
      in intervals s' i = None \<and> isGenerating s' = False \<and> currentTask s' = Some task \<and>
         (\<forall>path. video_path task = Some path \<and> path \<noteq> [] \<longrightarrow>
            previewVideo s' = Some path \<and>
            callbackCalls s' =
              (if onPreviewGenerated s then callbackCalls s @ [path] else callbackCalls s)) \<and>
         (video_path task = None \<or> video_path task = Some [] \<longrightarrow>
            previewVideo s' = previewVideo s \<and> callbackCalls s' = callbackCalls s)"
    unfolding Let_def s'_def[symmetric] using common video none by blast
qed

theorem completed_poll_effect_witness:
  "intervals samplePolling 0 = Some \<lparr>poll_taskId = ''t1'', poll_delay = 2000\<rparr> \<and>
   status (completedTask (Some ''/out/v.mp4'')) = ''completed'' \<and>
   intervals (intervalFires 0 (Inr (Response True (Inr (completedTask (Some ''/out/v.mp4'')))))
                samplePolling) 0 = None \<and>
   currentTask (intervalFires 0 (Inr (Response True (Inr (completedTask (Some ''/out/v.mp4'')))))
                samplePolling) = Some (completedTask (Some ''/out/v.mp4'')) \<and>
   previewVideo (intervalFires 0 (Inr (Response True (Inr (completedTask (Some ''/out/v.mp4'')))))
                samplePolling) = Some ''/out/v.mp4'' \<and>
   callbackCalls (intervalFires 0 (Inr (Response True (Inr (completedTask (Some ''/out/v.mp4'')))))
                samplePolling) = [''/out/v.mp4'']"
proof -
  have i: "intervals samplePolling 0 = Some \<lparr>poll_taskId = ''t1'', poll_delay = 2000\<rparr>"
    by (simp add: samplePolling_intervals)
  have c: "status (completedTask (Some ''/out/v.mp4'')) = ''completed''"
    and v: "video_path (completedTask (Some ''/out/v.mp4'')) = Some ''/out/v.mp4''"
    by (simp_all add: completedTask_def)
  show ?thesis
    using i c v samplePolling_untouched
      completed_poll_effect[of samplePolling 0 "\<lparr>poll_taskId = ''t1'', poll_delay = 2000\<rparr>"
        "completedTask (Some ''/out/v.mp4'')"]
    by (simp add: Let_def)
qed

text \<open>
  Claim C5, as stated, fails: the claim has the default message substituted only when
  the error field is absent. Here the failed task carries an error field that is
  present and is the empty string; \<^verbatim>\<open>task.error || ...\<close> treats it as false, and the
  default message is surfaced.
\<close>

theorem empty_error_gets_default:
  "status (failedTask (Some [])) = ''failed'' \<and>
   error (failedTask (Some [])) = Some [] \<and>
   error_state (intervalFires 0 (Inr (Response True (Inr (failedTask (Some []))))) samplePolling)
     = Some ''Preview generation failed''"
  by (simp add: intervalFires_def samplePolling_intervals pollCallback_failed failedTask_def)

text \<open>
  Claim C5, amended. When a poll returns the status \<^verbatim>\<open>failed\<close>, the client stops
  polling, clears the generating flag and surfaces an error message: the task's error
  field when that is present and not empty, and the default message
  \<^verbatim>\<open>Preview generation failed\<close> when the field is absent or is the empty string.
\<close>

theorem failed_poll_effect:
  "intervals s i = Some p \<and> status task = ''failed'' \<longrightarrow>
     (let s' = intervalFires i (Inr (Response True (Inr task))) s
      in intervals s' i = None \<and> isGenerating s' = False \<and> currentTask s' = Some task \<and>
         (\<forall>e. error task = Some e \<and> e \<noteq> [] \<longrightarrow> error_state s' = Some e) \<and>
         (error task = None \<or> error task = Some [] \<longrightarrow>
            error_state s' = Some ''Preview generation failed''))"
proof (intro impI)
  assume h: "intervals s i = Some p \<and> status task = ''failed''"
  define s' where "s' = intervalFires i (Inr (Response True (Inr task))) s"
  have run: "s' = pollCallback i (poll_taskId p) (Inr (Response True (Inr task))) s"
    using h by (simp add: s'_def intervalFires_def)
  have failed: "status task = ''failed''" using h by simp
  have common: "intervals s' i = None \<and> isGenerating s' = False \<and> currentTask s' = Some task"
    unfolding run pollCallback_failed[OF failed] by simp
  have surfaced: "error_state s' = Some (js_or (error task) ''Preview generation failed'')"
    unfolding run pollCallback_failed[OF failed] by simp
  have given: "error_state s' = Some e" if "error task = Some e \<and> e \<noteq> []" for e
    using surfaced that by simp
  have dflt: "error_state s' = Some ''Preview generation failed''"
    if "error task = None \<or> error task = Some []"
    using surfaced that by auto
  show "let s' = intervalFires i (Inr (Response True (Inr task))) s
      in intervals s' i = None \<and> isGenerating s' = False \<and> currentTask s' = Some task \<and>
         (\<forall>e. error task = Some e \<and> e \<noteq> [] \<longrightarrow> error_state s' = Some e) \<and>
         (error task = None \<or> error task = Some [] \<longrightarrow>
            error_state s' = Some ''Preview generation failed'')"
    unfolding Let_def s'_def[symmetric] using common given dflt by blast
qed

theorem failed_poll_effect_witness:
  "intervals samplePolling 0 = Some \<lparr>poll_taskId = ''t1'', poll_delay = 2000\<rparr> \<and>
   status (failedTask (Some ''TTS crashed'')) = ''failed'' \<and>
   intervals (intervalFires 0 (Inr (Response True (Inr (failedTask (Some ''TTS crashed'')))))
                samplePolling) 0 = None \<and>
   error_state (intervalFires 0 (Inr (Response True (Inr (failedTask (Some ''TTS crashed'')))))
                samplePolling) = Some ''TTS crashed'' \<and>
   error_state (intervalFires 0 (Inr (Response True (Inr (failedTask None)))) samplePolling)
     = Some ''Preview generation failed''"
proof -
  have i: "intervals samplePolling 0 = Some \<lparr>poll_taskId = ''t1'', poll_delay = 2000\<rparr>"
    by (simp add: samplePolling_intervals)
  have f: "status (failedTask e) = ''failed''" and e: "error (failedTask e) = e" for e
    by (simp_all add: failedTask_def)
  show ?thesis
    using i f e
      failed_poll_effect[of samplePolling 0 "\<lparr>poll_taskId = ''t1'', poll_delay = 2000\<rparr>"
        "failedTask (Some ''TTS crashed'')"]
      failed_poll_effect[of samplePolling 0 "\<lparr>poll_taskId = ''t1'', poll_delay = 2000\<rparr>"
        "failedTask None"]
    by (simp add: Let_def)
qed

subsection \<open>Starting and cancelling a generation\<close>

text \<open>
  Claim C6, as stated, fails: the claim has the client post to the path
  \<^verbatim>\<open>/preview/generate-full\<close>. The one request that \<^verbatim>\<open>generatePreview\<close> issues goes to
  \<^verbatim>\<open>/api/preview/generate-full\<close>; the component addresses all three task routes below
  the prefix \<^verbatim>\<open>/api\<close>.
\<close>

theorem generate_posts_under_api_prefix:
  "map req_url (requests samplePolling) = [''/api/preview/generate-full''] \<and>
   ''/api/preview/generate-full'' \<noteq> ''/preview/generate-full''"
  by (simp add: samplePolling_def sampleGenerator_def generatePreview_def pollTaskStatus_def
        js_trim_hello Let_def)

text \<open>
  Claim C6, amended. To start a generation (the trimmed prompt is not empty), the client
  issues a POST to the path \<^verbatim>\<open>/api/preview/generate-full\<close> with a JSON body containing
  exactly the fields \<^verbatim>\<open>prompt\<close> (a string, the trimmed prompt) and \<^verbatim>\<open>use_sample\<close> (a
  boolean, true); on success it records the returned \<^verbatim>\<open>task_id\<close>, \<^verbatim>\<open>status\<close>,
  \<^verbatim>\<open>progress\<close> and \<^verbatim>\<open>message\<close> as the current task and at once registers the polling
  interval for the returned task.
\<close>

theorem generatePreview_effect:
  "js_trim (prompt s) \<noteq> [] \<longrightarrow>
     requests (generatePreview outcome s) =
       requests s @
         [\<lparr>req_method = POST, req_url = ''/api/preview/generate-full'',
           req_headers = [(''Content-Type'', ''application/json'')],
           req_body = Some [(''prompt'', JString (js_trim (prompt s))),
                            (''use_sample'', JBoolean True)]\<rparr>] \<and>
     (\<forall>data. outcome = Inr (Response True (Inr data)) \<longrightarrow>
        currentTask (generatePreview outcome s) =
          Some \<lparr>task_id = task_id data, status = status data, progress = progress data,
                current_step = None, message = message data, video_path = None,
                audio_path = None, error = None\<rparr> \<and>
        intervals (generatePreview outcome s) =
          (intervals s)(nextInterval s \<mapsto> \<lparr>poll_taskId = task_id data, poll_delay = 2000\<rparr>))"
  by (auto simp add: generatePreview_def generateCaught_def pollTaskStatus_def Let_def
        split: sum.splits)

theorem generatePreview_effect_witness:
  "js_trim (prompt sampleGenerator) \<noteq> [] \<and>
   requests samplePolling =
     [\<lparr>req_method = POST, req_url = ''/api/preview/generate-full'',
       req_headers = [(''Content-Type'', ''application/json'')],
       req_body = Some [(''prompt'', JString ''Hello world''), (''use_sample'', JBoolean True)]\<rparr>] \<and>
   currentTask samplePolling = Some (sampleTask ''started'') \<and>
   intervals samplePolling 0 = Some \<lparr>poll_taskId = ''t1'', poll_delay = 2000\<rparr>"
proof -
  have t: "js_trim (prompt sampleGenerator) \<noteq> []"
    by (simp add: sampleGenerator_def js_trim_hello)
  have p: "js_trim (prompt sampleGenerator) = ''Hello world''"
    by (simp add: sampleGenerator_def js_trim_hello)
  have r: "requests sampleGenerator = []" "intervals sampleGenerator = Map.empty"
    "nextInterval sampleGenerator = 0"
    by (simp_all add: sampleGenerator_def)
  show ?thesis
    using t generatePreview_effect[of sampleGenerator
            "Inr (Response True (Inr (sampleTask ''started'')))"]
    by (simp add: samplePolling_def p r sampleTask_def)
qed

text \<open>
  Claim C7, as stated, fails twice at one input: the claim has the cancel operation
  send its DELETE to \<^verbatim>\<open>/preview/tasks-full/{task_id}\<close> and then clear the current task.
  Here task \<^verbatim>\<open>t1\<close> is active and the request is rejected (a network failure): the
  request went to \<^verbatim>\<open>/api/preview/tasks-full/t1\<close>, and the \<^verbatim>\<open>catch\<close> block leaves the
  current task in place.
\<close>

theorem cancel_with_rejected_request:
  "currentTask samplePolling = Some (sampleTask ''started'') \<and>
   map req_url (requests (cancelGeneration (Inl ''Failed to fetch'') samplePolling))
     = [''/api/preview/generate-full'', ''/api/preview/tasks-full/t1''] \<and>
   ''/api/preview/tasks-full/t1'' \<noteq> ''/preview/tasks-full/t1'' \<and>
   currentTask (cancelGeneration (Inl ''Failed to fetch'') samplePolling)
     = Some (sampleTask ''started'')"
  by (simp add: cancelGeneration_def Let_def)
     (simp add: samplePolling_def sampleGenerator_def sampleTask_def generatePreview_def
        pollTaskStatus_def js_trim_hello Let_def)

text \<open>
  Claim C7, amended. For every active task, the cancel operation issues an HTTP DELETE
  to the per-task path \<^verbatim>\<open>/api/preview/tasks-full/{task_id}\<close> for that task's id; when
  the request resolves (with whatever response) it then clears the current task and the
  generating flag; when the request is rejected it keeps the current task and records
  the error's message. When no task is active, the operation issues no request and
  changes nothing.
\<close>

theorem cancelGeneration_effect:
  "(\<forall>task. currentTask s = Some task \<longrightarrow>
      requests (cancelGeneration outcome s) =
        requests s @
          [\<lparr>req_method = DELETE, req_url = ''/api/preview/tasks-full/'' @ task_id task,
            req_headers = [], req_body = None\<rparr>] \<and>
      (\<forall>resp. outcome = Inr resp \<longrightarrow>
         currentTask (cancelGeneration outcome s) = None \<and>
         isGenerating (cancelGeneration outcome s) = False) \<and>
      (\<forall>msg. outcome = Inl msg \<longrightarrow>
         currentTask (cancelGeneration outcome s) = Some task \<and>
         error_state (cancelGeneration outcome s) = Some msg)) \<and>
   (currentTask s = None \<longrightarrow> cancelGeneration outcome s = s)"
proof (intro conjI allI impI)
  fix task
  assume active: "currentTask s = Some task"
  show "requests (cancelGeneration outcome s) =
        requests s @
          [\<lparr>req_method = DELETE, req_url = ''/api/preview/tasks-full/'' @ task_id task,
            req_headers = [], req_body = None\<rparr>]"
    using active by (cases outcome) (simp_all add: cancelGeneration_def Let_def)
  { fix resp
    assume "outcome = Inr resp"
    with active show "currentTask (cancelGeneration outcome s) = None"
      and "isGenerating (cancelGeneration outcome s) = False"
      by (simp_all add: cancelGeneration_def Let_def) }
  { fix msg
    assume "outcome = Inl msg"
    with active show "currentTask (cancelGeneration outcome s) = Some task"
      and "error_state (cancelGeneration outcome s) = Some msg"
      by (simp_all add: cancelGeneration_def Let_def) }
next
  assume "currentTask s = None"
  then show "cancelGeneration outcome s = s"
    by (simp add: cancelGeneration_def)
qed

theorem cancelGeneration_effect_witness:
  "currentTask samplePolling = Some (sampleTask ''started'') \<and>
   requests (cancelGeneration (Inr (Response True (Inr ()))) samplePolling) =
     requests samplePolling @
       [\<lparr>req_method = DELETE, req_url = ''/api/preview/tasks-full/t1'',
         req_headers = [], req_body = None\<rparr>] \<and>
   currentTask (cancelGeneration (Inr (Response True (Inr ()))) samplePolling) = None \<and>
   currentTask sampleGenerator = None \<and>
   cancelGeneration (Inr (Response True (Inr ()))) sampleGenerator = sampleGenerator"
proof -
  have c: "currentTask samplePolling = Some (sampleTask ''started'')"
    by (rule samplePolling_currentTask)
  have n: "currentTask sampleGenerator = None"
    by (simp add: sampleGenerator_def)
  have i: "task_id (sampleTask ''started'') = ''t1''" by (simp add: sampleTask_def)
  show ?thesis
    using c n i cancelGeneration_effect[of samplePolling "Inr (Response True (Inr ()))"]
      cancelGeneration_effect[of sampleGenerator "Inr (Response True (Inr ()))"]
    by simp
qed

subsection \<open>The video-stage panel\<close>

text \<open>The string functions of the embedding against the library's notions.\<close>

lemma startsWith_prefix: "js_startsWith s p = prefix p s"
  by (induction s p rule: js_startsWith.induct) auto

lemma includes_sublist: "js_includes s p = sublist p s"
proof (induction s)
  case Nil
  then show ?case by simp
next
  case (Cons c cs)
  show ?case
    by (simp add: Cons.IH startsWith_prefix sublist_Cons_right del: js_startsWith.simps)
qed

text \<open>
  \<open>js_replace\<close> removes the leftmost occurrence: if the pattern sits after \<open>a\<close> and no
  occurrence starts inside \<open>a\<close>, the result is \<open>a\<close>, the replacement, and the rest.
\<close>

lemma replace_first:
  "p \<noteq> [] \<Longrightarrow> \<forall>i<length a. \<not> prefix p (drop i (a @ p @ b)) \<Longrightarrow>
     js_replace (a @ p @ b) p r = a @ r @ b"
proof (induction a)
  case Nil
  then obtain c cs where "p @ b = c # cs" by (cases p) auto
  then show ?case
    by (simp add: startsWith_prefix del: js_startsWith.simps)
       (metis append_eq_conv_conj prefixI)
next
  case (Cons x a)
  have "\<not> prefix p ((x # a) @ p @ b)" using Cons.prems(2) by force
  moreover have "\<forall>i<length a. \<not> prefix p (drop i (a @ p @ b))"
    using Cons.prems(2) by force
  ultimately show ?case using Cons by (simp add: startsWith_prefix del: js_startsWith.simps)
qed

lemma replace_first_in:
  "p \<noteq> [] \<Longrightarrow> m = a @ p @ b \<Longrightarrow> \<forall>i<length a. \<not> prefix p (drop i m) \<Longrightarrow>
     js_replace m p [] = a @ b"
  using replace_first[of p a b "[]"] by simp

lemma replace_absent: "\<not> sublist p s \<Longrightarrow> js_replace s p r = s"
proof (induction s)
  case Nil
  then show ?case by auto
next
  case (Cons c cs)
  then show ?case
    by (auto simp add: startsWith_prefix sublist_Cons_right simp del: js_startsWith.simps)
qed

lemma replace_prefix: "p \<noteq> [] \<Longrightarrow> prefix p m \<Longrightarrow> js_replace m p [] = drop (length p) m"
  by (cases m) (auto simp add: startsWith_prefix simp del: js_startsWith.simps)

lemma sadTalkerPanel_Some:
  "currentTask s = Some task \<Longrightarrow> message task = Some m \<Longrightarrow>
     sadTalkerPanel s =
       (if status task = ''generating_video'' \<and> sublist ''SadTalker'' m
        then Some (js_replace m ''SadTalker: '' []) else None)"
  by (simp add: sadTalkerPanel_def includes_sublist del: js_includes.simps js_replace.simps)

lemma videoStage_task:
  "currentTask (videoStage m) =
     Some ((sampleTask ''generating_video'')\<lparr>message := Some m\<rparr>)"
  by (simp add: videoStage_def)

text \<open>
  Claim C8, as stated, fails: the claim has the detail equal the message with the prefix
  \<^verbatim>\<open>SadTalker: \<close> removed. Here the message of a task in the video stage contains
  \<^verbatim>\<open>SadTalker: \<close> but does not start with it: the panel is shown, and
  \<^verbatim>\<open>message.replace('SadTalker: ', '')\<close> cuts the occurrence out of the middle, whereas
  the message has no such prefix to remove.
\<close>

theorem sadTalker_detail_not_prefix_removal:
  "sadTalkerPanel (videoStage ''Running SadTalker: 50%'') = Some ''Running 50%'' \<and>
   spec_without_prefix ''SadTalker: '' ''Running SadTalker: 50%'' = ''Running SadTalker: 50%''"
  by (simp add: videoStage_def sampleGenerator_def sampleTask_def sadTalkerPanel_def
        spec_without_prefix_def)

text \<open>
  Claim C8, amended. The nested video-stage panel is displayed exactly when there is a
  current task whose status is \<^verbatim>\<open>generating_video\<close> and whose message contains the
  substring \<^verbatim>\<open>SadTalker\<close>; the detail shown is the message with its first occurrence of
  \<^verbatim>\<open>SadTalker: \<close> removed: the message without that prefix when it starts with it, the
  message unchanged when \<^verbatim>\<open>SadTalker: \<close> does not occur in it, and in general \<open>a @ b\<close>
  when the message is \<open>a\<close>, \<^verbatim>\<open>SadTalker: \<close>, \<open>b\<close> and no occurrence starts within \<open>a\<close>.
\<close>

theorem sadTalker_panel:
  "(sadTalkerPanel s \<noteq> None \<longleftrightarrow>
      (\<exists>task m. currentTask s = Some task \<and> status task = ''generating_video'' \<and>
                 message task = Some m \<and> sublist ''SadTalker'' m)) \<and>
   (\<forall>task m d. currentTask s = Some task \<and> message task = Some m \<and>
        sadTalkerPanel s = Some d \<longrightarrow>
        (prefix ''SadTalker: '' m \<longrightarrow> d = drop (length ''SadTalker: '') m) \<and>
        (\<not> sublist ''SadTalker: '' m \<longrightarrow> d = m) \<and>
        (\<forall>a b. m = a @ ''SadTalker: '' @ b \<and>
               (\<forall>i<length a. \<not> prefix ''SadTalker: '' (drop i m)) \<longrightarrow> d = a @ b))"
proof -
  have shown: "sadTalkerPanel s \<noteq> None \<longleftrightarrow>
      (\<exists>task m. currentTask s = Some task \<and> status task = ''generating_video'' \<and>
                 message task = Some m \<and> sublist ''SadTalker'' m)"
  proof (cases "currentTask s")
    case None
    then show ?thesis by (simp add: sadTalkerPanel_def)
  next
    case (Some task)
    show ?thesis
    proof (cases "message task")
      case None
      then show ?thesis using Some by (simp add: sadTalkerPanel_def)
    next
      case (Some m)
      with \<open>currentTask s = Some task\<close> show ?thesis
        by (simp add: sadTalkerPanel_Some)
    qed
  qed
  have detail: "(prefix ''SadTalker: '' m \<longrightarrow> d = drop (length ''SadTalker: '') m) \<and>
        (\<not> sublist ''SadTalker: '' m \<longrightarrow> d = m) \<and>
        (\<forall>a b. m = a @ ''SadTalker: '' @ b \<and>
               (\<forall>i<length a. \<not> prefix ''SadTalker: '' (drop i m)) \<longrightarrow> d = a @ b)"
    if t: "currentTask s = Some task" and m: "message task = Some m"
      and d: "sadTalkerPanel s = Some d" for task m d
  proof -
    have ne: "''SadTalker: '' \<noteq> []" by simp
    have d': "d = js_replace m ''SadTalker: '' []"
      using d sadTalkerPanel_Some[OF t m] by (simp split: if_splits)
    have 1: "prefix ''SadTalker: '' m \<longrightarrow> d = drop (length ''SadTalker: '') m"
    proof
      assume "prefix ''SadTalker: '' m"
      with ne have "js_replace m ''SadTalker: '' [] = drop (length ''SadTalker: '') m"
        by (rule replace_prefix)
      then show "d = drop (length ''SadTalker: '') m" using d' by (simp only:)
    qed
    have 2: "\<not> sublist ''SadTalker: '' m \<longrightarrow> d = m"
      using replace_absent[of "''SadTalker: ''" m "[]"] d' by simp
    have 3: "\<forall>a b. m = a @ ''SadTalker: '' @ b \<and>
               (\<forall>i<length a. \<not> prefix ''SadTalker: '' (drop i m)) \<longrightarrow> d = a @ b"
    proof (intro allI impI)
      fix a b
      assume "m = a @ ''SadTalker: '' @ b \<and>
               (\<forall>i<length a. \<not> prefix ''SadTalker: '' (drop i m))"
      then have e: "m = a @ ''SadTalker: '' @ b"
        and f: "\<forall>i<length a. \<not> prefix ''SadTalker: '' (drop i m)"
        by blast+
      from ne e f have "js_replace m ''SadTalker: '' [] = a @ b"
        by (rule replace_first_in)
      then show "d = a @ b" using d' by (simp only:)
    qed
    show ?thesis using 1 2 3 by blast
  qed
  show ?thesis using shown detail by blast
qed

theorem sadTalker_panel_witness:
  "sadTalkerPanel (videoStage ''SadTalker: Rendering frames'') = Some ''Rendering frames'' \<and>
   sadTalkerPanel (videoStage ''Generating video with SadTalker...'')
     = Some ''Generating video with SadTalker...'' \<and>
   sadTalkerPanel (videoStage ''Encoding'') = None \<and>
   sadTalkerPanel sampleGenerator = None"
proof -
  let ?t = "\<lambda>m. (sampleTask ''generating_video'')\<lparr>message := Some m\<rparr>"
  have st: "status (?t m) = ''generating_video''" and ms: "message (?t m) = Some m" for m
    by (simp_all add: sampleTask_def)
  have sub1: "sublist ''SadTalker'' ''SadTalker: Rendering frames''"
    by (simp add: includes_sublist[symmetric])
  have pre1: "prefix ''SadTalker: '' ''SadTalker: Rendering frames''"
    by simp
  have sub2: "sublist ''SadTalker'' ''Generating video with SadTalker...''"
    by (simp add: includes_sublist[symmetric])
  have no2: "\<not> sublist ''SadTalker: '' ''Generating video with SadTalker...''"
    by (simp add: includes_sublist[symmetric])
  have no3: "\<not> sublist ''SadTalker'' ''Encoding''"
    by (simp add: includes_sublist[symmetric])
  have a: "sadTalkerPanel (videoStage ''SadTalker: Rendering frames'') = Some ''Rendering frames''"
  proof -
    let ?s = "videoStage ''SadTalker: Rendering frames''"
    from sadTalker_panel[of ?s] videoStage_task st ms sub1
    have "sadTalkerPanel ?s \<noteq> None" by blast
    then obtain d where d: "sadTalkerPanel ?s = Some d" by blast
    from sadTalker_panel[of ?s] videoStage_task ms d pre1
    have "d = drop (length ''SadTalker: '') ''SadTalker: Rendering frames''" by blast
    then show ?thesis using d by simp
  qed
  have b: "sadTalkerPanel (videoStage ''Generating video with SadTalker...'')
             = Some ''Generating video with SadTalker...''"
  proof -
    let ?s = "videoStage ''Generating video with SadTalker...''"
    from sadTalker_panel[of ?s] videoStage_task st ms sub2
    have "sadTalkerPanel ?s \<noteq> None" by blast
    then obtain d where d: "sadTalkerPanel ?s = Some d" by blast
    from sadTalker_panel[of ?s] videoStage_task ms d no2
    have "d = ''Generating video with SadTalker...''" by blast
    then show ?thesis using d by simp
  qed
  have c: "sadTalkerPanel (videoStage ''Encoding'') = None"
  proof -
    let ?s = "videoStage ''Encoding''"
    have "\<not> (\<exists>task m. currentTask ?s = Some task \<and> status task = ''generating_video'' \<and>
                 message task = Some m \<and> sublist ''SadTalker'' m)"
      using videoStage_task[of "''Encoding''"] ms[of "''Encoding''"] no3 by auto
    with sadTalker_panel[of ?s] show ?thesis by blast
  qed
  have e: "sadTalkerPanel sampleGenerator = None"
  proof -
    have "currentTask sampleGenerator = None" by (simp add: sampleGenerator_def)
    then have "\<not> (\<exists>task m. currentTask sampleGenerator = Some task \<and>
                 status task = ''generating_video'' \<and>
                 message task = Some m \<and> sublist ''SadTalker'' m)"
      by simp
    with sadTalker_panel[of sampleGenerator] show ?thesis by blast
  qed
  show ?thesis using a b c e by simp
qed

subsection \<open>The size lines of the image results panel\<close>














end
